theory Spec2Isabelle
  imports Complex_Main
begin

section \<open>Data model\<close>

text \<open>
  The repository is a Socket.IO whiteboard: \<open>server.js\<close> keeps one in-memory table of
  rooms and relays events, the browser script keeps a mirror (\<open>paths\<close>) of the
  current room and runs the two mini-games.

  Conventions of the embedding.
  \<^item> A connection is identified by its \<open>socket.id\<close>, a string.
  \<^item> \<open>roomStorage\<close> is a JavaScript object used as a dictionary; its own properties
    are a map from property keys to rooms, and the names it inherits from
    \<open>Object.prototype\<close> are modelled beside it.
  \<^item> Payloads are taken to be well formed: the fields the handlers destructure are
    present and have the expected shape (an element object, an array of element
    objects, strings, an integer index).
  \<^item> JavaScript numbers used for geometry and physics are modelled as \<open>real\<close>;
    no theorem below depends on rounding.
  \<^item> \<open>null\<close> is \<open>None\<close>. Reading an array outside its bounds gives
    \<open>undefined\<close>, modelled by \<open>elemAt\<close> returning \<open>None\<close>.
\<close>

type_synonym conn_id = string
type_synonym room_id = string

datatype mark = MarkX | MarkO

datatype ttt_result = Won mark | Draw

record tictactoe =
  ttt_x :: real
  ttt_y :: real
  ttt_size :: real
  board :: "mark option list"
  currentPlayer :: mark
  winner :: "ttt_result option"
  winLine :: "nat list option"
  playerX :: "conn_id option"
  playerO :: "conn_id option"

record ball_state =
  ball_x :: real
  ball_y :: real
  ball_dx :: real
  ball_dy :: real
  ball_radius :: real

record paddle =
  pad_x :: real
  pad_y :: real
  pad_width :: real
  pad_height :: real
  score :: nat

datatype side = SideLeft | SideRight

record pingpong =
  pp_x :: real
  pp_y :: real
  width :: real
  height :: real
  ball :: ball_state
  paddleLeft :: paddle
  paddleRight :: paddle
  playerLeft :: "conn_id option"
  playerRight :: "conn_id option"
  gameStarted :: bool
  paused :: bool
  pp_winner :: "side option"
  lastUpdate :: real

datatype game = TicTacToe tictactoe | PingPong pingpong

datatype element =
    Line string "(real \<times> real) list"
  | Shape string
  | TextEl string
  | Image string
  | Game game

record laser =
  laser_points :: "(real \<times> real) list"
  laser_timestamp :: nat

record chatEntry =
  chat_text :: string
  senderId :: conn_id
  timestamp :: nat

record room =
  elements :: "element list"
  chat :: "chatEntry list"
  background :: string

text \<open>\<open>xs[i]\<close> in JavaScript: \<open>undefined\<close> outside the array.\<close>

definition elemAt :: "'a list \<Rightarrow> int \<Rightarrow> 'a option" where
  "elemAt xs i = (if 0 \<le> i \<and> i < int (length xs) then Some (xs ! nat i) else None)"


section \<open>The server: room table and event router\<close>

text \<open>
  \<open>roomStorage\<close> is a plain object, and every handler tests \<open>roomStorage[key]\<close> for
  truthiness. Such a read finds the object's own property when there is one, and
  otherwise whatever \<open>Object.prototype\<close> offers under that name: the prototype
  itself under \<open>__proto__\<close>, a built-in function under eleven other names, and any
  property that an earlier event has written onto the prototype. The handlers can
  write two properties there, \<open>elements\<close> and \<open>background\<close>; nothing ever assigns
  \<open>chat\<close>, so outside the table \<open>.chat\<close> always reads \<open>undefined\<close>.

  \<open>prototypeState\<close> records those writes: on \<open>Object.prototype\<close>, on each built-in
  function, and on the array that \<open>Object.prototype.elements\<close> holds (an array is an
  object and can carry properties of its own).
\<close>

definition builtinFunctions :: "string list" where
  "builtinFunctions =
     [''constructor'', ''__defineGetter__'', ''__defineSetter__'', ''hasOwnProperty'',
      ''__lookupGetter__'', ''__lookupSetter__'', ''isPrototypeOf'', ''propertyIsEnumerable'',
      ''toString'', ''valueOf'', ''toLocaleString'']"

text \<open>
  What \<open>roomStorage[key]\<close> can be when the table has no such key and the read is
  truthy: \<open>Object.prototype\<close>, a built-in function, the array stored as
  \<open>Object.prototype.elements\<close>, or the string stored as \<open>Object.prototype.background\<close>.
\<close>

datatype inheritedValue =
    ObjectPrototype
  | BuiltinFunction string
  | SharedElements
  | SharedBackground

record prototypeState =
  proto_elements :: "element list option"
  proto_background :: "string option"
  fn_elements :: "string \<rightharpoonup> element list"
  fn_background :: "string \<rightharpoonup> string"
  arr_elements :: "element list option"
  arr_background :: "string option"

definition inheritedLookup :: "prototypeState \<Rightarrow> string \<Rightarrow> inheritedValue option" where
  "inheritedLookup p k =
     (if k = ''__proto__'' then Some ObjectPrototype
      else if k \<in> set builtinFunctions then Some (BuiltinFunction k)
      else if k = ''elements'' then
        (case proto_elements p of Some a \<Rightarrow> Some SharedElements | None \<Rightarrow> None)
      else if k = ''background'' then
        (case proto_background p of
           Some b \<Rightarrow> if b = [] then None else Some SharedBackground
         | None \<Rightarrow> None)
      else None)"

text \<open>\<open>x.elements\<close> and \<open>x.background\<close> read through the prototype chain.\<close>

fun elementsOf :: "prototypeState \<Rightarrow> inheritedValue \<Rightarrow> element list option" where
  "elementsOf p ObjectPrototype = proto_elements p"
| "elementsOf p (BuiltinFunction k) =
     (case fn_elements p k of Some a \<Rightarrow> Some a | None \<Rightarrow> proto_elements p)"
| "elementsOf p SharedElements =
     (case arr_elements p of Some a \<Rightarrow> Some a | None \<Rightarrow> proto_elements p)"
| "elementsOf p SharedBackground = proto_elements p"

fun backgroundOf :: "prototypeState \<Rightarrow> inheritedValue \<Rightarrow> string option" where
  "backgroundOf p ObjectPrototype = proto_background p"
| "backgroundOf p (BuiltinFunction k) =
     (case fn_background p k of Some b \<Rightarrow> Some b | None \<Rightarrow> proto_background p)"
| "backgroundOf p SharedElements =
     (case arr_background p of Some b \<Rightarrow> Some b | None \<Rightarrow> proto_background p)"
| "backgroundOf p SharedBackground = proto_background p"

text \<open>
  A change made in place (\<open>push\<close>, an indexed store) to the array that \<open>x.elements\<close>
  denotes: the array lives where the read found it.
\<close>

definition changeShared :: "(element list \<Rightarrow> element list) \<Rightarrow> prototypeState \<Rightarrow> prototypeState" where
  "changeShared f p = p\<lparr>proto_elements := map_option f (proto_elements p)\<rparr>"

fun changeElements ::
  "(element list \<Rightarrow> element list) \<Rightarrow> inheritedValue \<Rightarrow> prototypeState \<Rightarrow> prototypeState" where
  "changeElements f ObjectPrototype p = changeShared f p"
| "changeElements f (BuiltinFunction k) p =
     (case fn_elements p k of
        Some a \<Rightarrow> p\<lparr>fn_elements := (fn_elements p)(k \<mapsto> f a)\<rparr>
      | None \<Rightarrow> changeShared f p)"
| "changeElements f SharedElements p =
     (case arr_elements p of
        Some a \<Rightarrow> p\<lparr>arr_elements := Some (f a)\<rparr>
      | None \<Rightarrow> changeShared f p)"
| "changeElements f SharedBackground p = changeShared f p"

text \<open>
  \<open>x.elements = data\<close> and \<open>x.background = bg\<close>. The assignment creates or replaces
  the property on \<open>x\<close> itself. On \<open>Object.prototype\<close> a new array takes the place of
  the old one, together with the properties the old one carried. On a string the
  assignment does nothing (the script is not in strict mode).
\<close>

fun assignElements :: "element list \<Rightarrow> inheritedValue \<Rightarrow> prototypeState \<Rightarrow> prototypeState" where
  "assignElements d ObjectPrototype p =
     p\<lparr>proto_elements := Some d, arr_elements := None, arr_background := None\<rparr>"
| "assignElements d (BuiltinFunction k) p = p\<lparr>fn_elements := (fn_elements p)(k \<mapsto> d)\<rparr>"
| "assignElements d SharedElements p = p\<lparr>arr_elements := Some d\<rparr>"
| "assignElements d SharedBackground p = p"

fun assignBackground :: "string \<Rightarrow> inheritedValue \<Rightarrow> prototypeState \<Rightarrow> prototypeState" where
  "assignBackground b ObjectPrototype p = p\<lparr>proto_background := Some b\<rparr>"
| "assignBackground b (BuiltinFunction k) p = p\<lparr>fn_background := (fn_background p)(k \<mapsto> b)\<rparr>"
| "assignBackground b SharedElements p = p\<lparr>arr_background := Some b\<rparr>"
| "assignBackground b SharedBackground p = p"

text \<open>
  The server state is the own properties of \<open>roomStorage\<close>, Socket.IO's room
  membership (\<open>io.sockets.adapter.rooms\<close>), which \<open>socket.join\<close> extends, and the
  writes that reached the prototype side.
\<close>

record server =
  roomStorage :: "room_id \<rightharpoonup> room"
  rooms :: "room_id \<Rightarrow> conn_id set"
  prototypes :: prototypeState

text \<open>\<open>roomStorage[key]\<close>: \<open>Missing\<close> stands for a falsy read.\<close>

datatype slot = OwnRoom room | Inherited inheritedValue | Missing

definition lookup :: "server \<Rightarrow> room_id \<Rightarrow> slot" where
  "lookup s k =
     (case roomStorage s k of
        Some rm \<Rightarrow> OwnRoom rm
      | None \<Rightarrow> (case inheritedLookup (prototypes s) k of
                   Some v \<Rightarrow> Inherited v
                 | None \<Rightarrow> Missing))"

text \<open>Inbound events (client to server), with the payload fields the handlers read.\<close>

datatype event =
    JoinRoom room_id
  | NewElement room_id element
  | FullSync room_id "element list"
  | ChatMessage room_id string
  | LaserPointer room_id laser
  | BackgroundChange room_id string
  | GameMove room_id int element

text \<open>
  Outbound events (server to client). \<open>CanvasDataUndefined\<close> and
  \<open>ChatHistoryUndefined\<close> are the two events sent with \<open>undefined\<close> in place of the
  array.
\<close>

datatype emitted =
    CanvasData "element list"
  | ChatHistory "chatEntry list"
  | BackgroundUpdated string
  | ElementReceived element
  | ChatReceived chatEntry
  | LaserReceived laser
  | GameMoveReceived int element
  | CanvasDataUndefined
  | ChatHistoryUndefined

text \<open>
  \<open>Emit\<close> is \<open>socket.emit(...)\<close>: to the sending socket only.
  \<open>ToRoom r\<close> is \<open>socket.to(r).emit(...)\<close>: Socket.IO delivers it to every socket
  that joined \<open>r\<close>, except the sending socket.
\<close>

datatype emission = Emit emitted | ToRoom room_id emitted

datatype log = ConsoleLog string | ConsoleError string

text \<open>
  Reading a property of \<open>undefined\<close> raises a \<open>TypeError\<close>. No handler catches it,
  so it ends the Node process. \<open>thrown\<close> records it; \<open>after\<close>, \<open>sent\<close> and
  \<open>logged\<close> are what had happened by then.
\<close>

datatype error = TypeError

record reaction =
  after :: server
  sent :: "emission list"
  logged :: "log list"
  thrown :: "error option"

fun recipients :: "server \<Rightarrow> conn_id \<Rightarrow> emission \<Rightarrow> conn_id set" where
  "recipients s sid (Emit _) = {sid}"
| "recipients s sid (ToRoom r _) = rooms s r - {sid}"

definition newRoom :: room where
  "newRoom = \<lparr>elements = [], chat = [], background = ''dots''\<rparr>"

text \<open>\<open>b || 'dots'\<close>: the empty string is falsy.\<close>

definition orDots :: "string \<Rightarrow> string" where
  "orDots b = (if b = [] then ''dots'' else b)"

definition onPrototypes :: "(prototypeState \<Rightarrow> prototypeState) \<Rightarrow> server \<Rightarrow> server" where
  "onPrototypes f s = s\<lparr>prototypes := f (prototypes s)\<rparr>"

text \<open>What a joining socket is sent about a room of the table.\<close>

definition greeting :: "room \<Rightarrow> emission list" where
  "greeting r =
     [Emit (CanvasData (elements r)),
      Emit (ChatHistory (chat r)),
      Emit (BackgroundUpdated (orDots (background r)))]"

definition join_room :: "conn_id \<Rightarrow> room_id \<Rightarrow> server \<Rightarrow> reaction" where
  "join_room sid roomId s =
     (let s1 = s\<lparr>rooms := (rooms s)(roomId := insert sid (rooms s roomId))\<rparr>
      in case lookup s1 roomId of
           Missing \<Rightarrow>
             \<lparr>after = s1\<lparr>roomStorage := (roomStorage s1)(roomId \<mapsto> newRoom)\<rparr>,
              sent = greeting newRoom,
              logged = [ConsoleLog ''joined room''],
              thrown = None\<rparr>
         | OwnRoom r \<Rightarrow>
             \<lparr>after = s1, sent = greeting r, logged = [ConsoleLog ''joined room''], thrown = None\<rparr>
         | Inherited v \<Rightarrow>
             \<lparr>after = s1,
              sent =
                [Emit (case elementsOf (prototypes s1) v of
                         Some a \<Rightarrow> CanvasData a | None \<Rightarrow> CanvasDataUndefined),
                 Emit ChatHistoryUndefined,
                 Emit (BackgroundUpdated
                         (case backgroundOf (prototypes s1) v of
                            Some b \<Rightarrow> orDots b | None \<Rightarrow> ''dots''))],
              logged = [ConsoleLog ''joined room''],
              thrown = None\<rparr>)"

definition new_element :: "conn_id \<Rightarrow> room_id \<Rightarrow> element \<Rightarrow> server \<Rightarrow> reaction" where
  "new_element sid r element s =
     (case lookup s r of
        OwnRoom rm \<Rightarrow>
          \<lparr>after = s\<lparr>roomStorage := (roomStorage s)(r \<mapsto> rm\<lparr>elements := elements rm @ [element]\<rparr>)\<rparr>,
           sent = [ToRoom r (ElementReceived element)],
           logged = [ConsoleLog ''New element added''],
           thrown = None\<rparr>
      | Inherited v \<Rightarrow>
          (case elementsOf (prototypes s) v of
             Some a \<Rightarrow>
               \<lparr>after = onPrototypes (changeElements (\<lambda>xs. xs @ [element]) v) s,
                sent = [ToRoom r (ElementReceived element)],
                logged = [ConsoleLog ''New element added''],
                thrown = None\<rparr>
           | None \<Rightarrow> \<lparr>after = s, sent = [], logged = [], thrown = Some TypeError\<rparr>)
      | Missing \<Rightarrow> \<lparr>after = s, sent = [], logged = [], thrown = None\<rparr>)"

definition full_sync :: "conn_id \<Rightarrow> room_id \<Rightarrow> element list \<Rightarrow> server \<Rightarrow> reaction" where
  "full_sync sid r data s =
     (case lookup s r of
        OwnRoom rm \<Rightarrow>
          \<lparr>after = s\<lparr>roomStorage := (roomStorage s)(r \<mapsto> rm\<lparr>elements := data\<rparr>)\<rparr>,
           sent = [ToRoom r (CanvasData data)],
           logged = [ConsoleLog ''Full sync''],
           thrown = None\<rparr>
      | Inherited v \<Rightarrow>
          \<lparr>after = onPrototypes (assignElements data v) s,
           sent = [ToRoom r (CanvasData data)],
           logged = [ConsoleLog ''Full sync''],
           thrown = None\<rparr>
      | Missing \<Rightarrow> \<lparr>after = s, sent = [], logged = [], thrown = None\<rparr>)"

definition chat_message :: "conn_id \<Rightarrow> nat \<Rightarrow> room_id \<Rightarrow> string \<Rightarrow> server \<Rightarrow> reaction" where
  "chat_message sid now r txt s =
     (case lookup s r of
        OwnRoom rm \<Rightarrow>
          (let chatEntry = \<lparr>chat_text = txt, senderId = sid, timestamp = now\<rparr>
           in \<lparr>after = s\<lparr>roomStorage := (roomStorage s)(r \<mapsto> rm\<lparr>chat := chat rm @ [chatEntry]\<rparr>)\<rparr>,
               sent = [ToRoom r (ChatReceived chatEntry)],
               logged = [ConsoleLog ''Chat message''],
               thrown = None\<rparr>)
      | Inherited v \<Rightarrow> \<lparr>after = s, sent = [], logged = [], thrown = Some TypeError\<rparr>
      | Missing \<Rightarrow> \<lparr>after = s, sent = [], logged = [], thrown = None\<rparr>)"

definition laser_pointer :: "conn_id \<Rightarrow> room_id \<Rightarrow> laser \<Rightarrow> server \<Rightarrow> reaction" where
  "laser_pointer sid r l s =
     (case lookup s r of
        Missing \<Rightarrow> \<lparr>after = s, sent = [], logged = [], thrown = None\<rparr>
      | _ \<Rightarrow>
          \<lparr>after = s, sent = [ToRoom r (LaserReceived l)],
           logged = [ConsoleLog ''Laser pointer''], thrown = None\<rparr>)"

definition background_change :: "conn_id \<Rightarrow> room_id \<Rightarrow> string \<Rightarrow> server \<Rightarrow> reaction" where
  "background_change sid r bg s =
     (case lookup s r of
        OwnRoom rm \<Rightarrow>
          \<lparr>after = s\<lparr>roomStorage := (roomStorage s)(r \<mapsto> rm\<lparr>background := bg\<rparr>)\<rparr>,
           sent = [ToRoom r (BackgroundUpdated bg)],
           logged = [ConsoleLog ''Background changed''],
           thrown = None\<rparr>
      | Inherited v \<Rightarrow>
          \<lparr>after = onPrototypes (assignBackground bg v) s,
           sent = [ToRoom r (BackgroundUpdated bg)],
           logged = [ConsoleLog ''Background changed''],
           thrown = None\<rparr>
      | Missing \<Rightarrow> \<lparr>after = s, sent = [], logged = [], thrown = None\<rparr>)"

definition game_move :: "conn_id \<Rightarrow> room_id \<Rightarrow> int \<Rightarrow> element \<Rightarrow> server \<Rightarrow> reaction" where
  "game_move sid r gameIndex g s =
     (case lookup s r of
        OwnRoom rm \<Rightarrow>
          (case elemAt (elements rm) gameIndex of
             Some _ \<Rightarrow>
               \<lparr>after = s\<lparr>roomStorage :=
                   (roomStorage s)(r \<mapsto> rm\<lparr>elements := (elements rm)[nat gameIndex := g]\<rparr>)\<rparr>,
                sent = [ToRoom r (GameMoveReceived gameIndex g)],
                logged = [ConsoleLog ''Received game move'',
                          ConsoleLog ''Updated game in storage'',
                          ConsoleLog ''Broadcasting''],
                thrown = None\<rparr>
           | None \<Rightarrow>
               \<lparr>after = s,
                sent = [ToRoom r (GameMoveReceived gameIndex g)],
                logged = [ConsoleLog ''Received game move'',
                          ConsoleError ''Game not found at index'',
                          ConsoleLog ''Broadcasting''],
                thrown = None\<rparr>)
      | Inherited v \<Rightarrow>
          (case elementsOf (prototypes s) v of
             Some a \<Rightarrow>
               (case elemAt a gameIndex of
                  Some _ \<Rightarrow>
                    \<lparr>after = onPrototypes (changeElements (\<lambda>xs. xs[nat gameIndex := g]) v) s,
                     sent = [ToRoom r (GameMoveReceived gameIndex g)],
                     logged = [ConsoleLog ''Received game move'',
                               ConsoleLog ''Updated game in storage'',
                               ConsoleLog ''Broadcasting''],
                     thrown = None\<rparr>
                | None \<Rightarrow>
                    \<lparr>after = s,
                     sent = [ToRoom r (GameMoveReceived gameIndex g)],
                     logged = [ConsoleLog ''Received game move'',
                               ConsoleError ''Game not found at index'',
                               ConsoleLog ''Broadcasting''],
                     thrown = None\<rparr>)
           | None \<Rightarrow>
               \<lparr>after = s, sent = [], logged = [ConsoleLog ''Received game move''],
                thrown = Some TypeError\<rparr>)
      | Missing \<Rightarrow>
          \<lparr>after = s, sent = [],
           logged = [ConsoleLog ''Received game move'', ConsoleError ''Room not found in storage''],
           thrown = None\<rparr>)"

text \<open>The dispatcher: \<open>socket.on(name, handler)\<close> for the socket \<open>sid\<close>;
  \<open>now\<close> is the value \<open>Date.now()\<close> returns during the handler.\<close>

fun handle :: "conn_id \<Rightarrow> nat \<Rightarrow> event \<Rightarrow> server \<Rightarrow> reaction" where
  "handle sid now (JoinRoom r) s = join_room sid r s"
| "handle sid now (NewElement r e) s = new_element sid r e s"
| "handle sid now (FullSync r d) s = full_sync sid r d s"
| "handle sid now (ChatMessage r t) s = chat_message sid now r t s"
| "handle sid now (LaserPointer r l) s = laser_pointer sid r l s"
| "handle sid now (BackgroundChange r b) s = background_change sid r b s"
| "handle sid now (GameMove r i g) s = game_move sid r i g s"

text \<open>The room key of a room-scoped event other than join.\<close>

fun scoped_room :: "event \<Rightarrow> room_id option" where
  "scoped_room (JoinRoom r) = None"
| "scoped_room (NewElement r e) = Some r"
| "scoped_room (FullSync r d) = Some r"
| "scoped_room (ChatMessage r t) = Some r"
| "scoped_room (LaserPointer r l) = Some r"
| "scoped_room (BackgroundChange r b) = Some r"
| "scoped_room (GameMove r i g) = Some r"

fun is_laser :: "event \<Rightarrow> bool" where
  "is_laser (LaserPointer r l) = True"
| "is_laser _ = False"

text \<open>
  Handlers run to completion one after the other; an arrival is a sender, the clock
  reading and the event. A handler that throws ends the process: the events behind
  it are never handled, and \<open>run\<close> gives the state reached by then.
\<close>

fun run :: "server \<Rightarrow> (conn_id \<times> nat \<times> event) list \<Rightarrow> server" where
  "run s [] = s"
| "run s ((sid, now, ev) # evs) =
     (if thrown (handle sid now ev s) = None then run (after (handle sid now ev s)) evs
      else after (handle sid now ev s))"

definition prototypes0 :: prototypeState where
  "prototypes0 = \<lparr>proto_elements = None, proto_background = None,
                  fn_elements = Map.empty, fn_background = Map.empty,
                  arr_elements = None, arr_background = None\<rparr>"

definition server0 :: server where
  "server0 = \<lparr>roomStorage = Map.empty, rooms = (\<lambda>r. {}), prototypes = prototypes0\<rparr>"

section \<open>The client: mirror, echo suppression and timers\<close>

text \<open>
  The browser script keeps its state in top-level variables; the ones the modelled
  functions touch are gathered in a record. \<open>outbox\<close> lists what the script has passed
  to \<open>socket.emit\<close>, oldest first. \<open>timers\<close> holds the pending \<open>setTimeout\<close> calls
  with the time at which each is due, and \<open>pingPongLoops\<close> the game indices that
  have a running \<open>setInterval\<close>.
\<close>

datatype callback = ClearLocalUpdate | ThrottledSyncFire | PaddleSyncFire

record client =
  socket_id :: conn_id
  currentRoom :: room_id
  paths :: "element list"
  isLocalUpdate :: bool
  selectedImage :: "nat option"
  isDraggingImage :: bool
  isResizingImage :: bool
  isDraggingPaddle :: bool
  draggedPaddleGame :: "nat option"
  draggedPaddleSide :: "side option"
  syncTimeout :: bool
  paddleSyncTimeout :: bool
  pingPongLoops :: "nat set"
  clock :: nat
  timers :: "(nat \<times> callback) list"
  outbox :: "event list"

text \<open>Truthiness of a player slot: \<open>null\<close> and the empty string are falsy.\<close>

definition truthy :: "string option \<Rightarrow> bool" where
  "truthy v = (case v of None \<Rightarrow> False | Some s \<Rightarrow> s \<noteq> [])"

definition setTimeout :: "callback \<Rightarrow> nat \<Rightarrow> client \<Rightarrow> client" where
  "setTimeout cb delay c = c\<lparr>timers := timers c @ [(clock c + delay, cb)]\<rparr>"

definition startPingPongLoop :: "nat \<Rightarrow> client \<Rightarrow> client" where
  "startPingPongLoop gameIndex c =
     (if gameIndex \<in> pingPongLoops c then c
      else c\<lparr>pingPongLoops := insert gameIndex (pingPongLoops c)\<rparr>)"

text \<open>
  \<open>cleanPathsForSync\<close> copies every element and deletes the copy's \<open>_imgElement\<close>,
  a cache of the renderer that the element model does not carry.
\<close>

definition cleanPathsForSync :: "element list \<Rightarrow> element list" where
  "cleanPathsForSync ps = map (\<lambda>p. p) ps"

text \<open>The \<open>canvas_data\<close> handler.\<close>

definition canvas_data_loops :: "nat \<times> element \<Rightarrow> client \<Rightarrow> client" where
  "canvas_data_loops ie c =
     (case snd ie of
        Game (PingPong el) \<Rightarrow>
          (if gameStarted el \<and> pp_winner el = None \<and> fst ie \<notin> pingPongLoops c
           then startPingPongLoop (fst ie) c else c)
      | _ \<Rightarrow> c)"

definition on_canvas_data :: "element list \<Rightarrow> client \<Rightarrow> client" where
  "on_canvas_data data c =
     (if isLocalUpdate c then c
      else
        (let c1 = fold canvas_data_loops (enumerate 0 data) c;
             c2 = c1\<lparr>paths := data\<rparr>
         in if \<not> isDraggingImage c2 \<and> \<not> isResizingImage c2
            then c2\<lparr>selectedImage := None\<rparr> else c2))"

text \<open>
  The \<open>game_move_received\<close> handler stores \<open>{...paths[i], ...data.game}\<close>. In an
  object spread every property of the second object overrides the first and the
  properties only the first has survive. An element is modelled by the fields of the
  variant its \<open>type\<close> names, and a received game carries all of them (the field
  \<open>type\<close> included), so the merged object, read as an element, is the received one.
\<close>

definition spread :: "element \<Rightarrow> element \<Rightarrow> element" where
  "spread old new = new"

definition on_game_move_received :: "int \<Rightarrow> element \<Rightarrow> client \<Rightarrow> client" where
  "on_game_move_received gameIndex g c =
     (case elemAt (paths c) gameIndex of
        Some old \<Rightarrow> c\<lparr>paths := (paths c)[nat gameIndex := spread old g]\<rparr>
      | None \<Rightarrow> c)"

text \<open>The three places that emit \<open>full_sync\<close>, and \<open>throttledPaddleSync\<close>.\<close>

definition throttledSync :: "client \<Rightarrow> client" where
  "throttledSync c =
     (if syncTimeout c then c
      else (setTimeout ThrottledSyncFire 100 c)\<lparr>syncTimeout := True\<rparr>)"

definition throttledPaddleSync :: "client \<Rightarrow> client" where
  "throttledPaddleSync c =
     (if paddleSyncTimeout c then c
      else (setTimeout PaddleSyncFire 50 c)\<lparr>paddleSyncTimeout := True\<rparr>)"

definition syncToServer :: "client \<Rightarrow> client" where
  "syncToServer c =
     c\<lparr>outbox := outbox c @ [FullSync (currentRoom c) (cleanPathsForSync (paths c))]\<rparr>"

text \<open>
  The part of \<open>handlePointerUp\<close> that syncs after an image was dragged or resized;
  \<open>moved\<close> is the distance the pointer travelled.
\<close>

definition handlePointerUp_imageSync :: "real \<Rightarrow> client \<Rightarrow> client" where
  "handlePointerUp_imageSync moved c =
     (if (isDraggingImage c \<or> isResizingImage c) \<and> selectedImage c \<noteq> None \<and> moved > 5
      then setTimeout ClearLocalUpdate 500
             (c\<lparr>isLocalUpdate := True,
                outbox := outbox c @ [FullSync (currentRoom c) (paths c)]\<rparr>)
      else c)"

text \<open>What each pending callback does when its timer fires.\<close>

fun fire :: "callback \<Rightarrow> client \<Rightarrow> client" where
  "fire ClearLocalUpdate c = c\<lparr>isLocalUpdate := False\<rparr>"
| "fire ThrottledSyncFire c =
     c\<lparr>outbox := outbox c @ [FullSync (currentRoom c) (cleanPathsForSync (paths c))],
       syncTimeout := False\<rparr>"
| "fire PaddleSyncFire c =
     (case draggedPaddleGame c of
        Some i \<Rightarrow>
          (case elemAt (paths c) (int i) of
             Some g \<Rightarrow> c\<lparr>outbox := outbox c @ [GameMove (currentRoom c) (int i) g],
                         paddleSyncTimeout := False\<rparr>
           | None \<Rightarrow> c\<lparr>paddleSyncTimeout := False\<rparr>)
      | None \<Rightarrow> c\<lparr>paddleSyncTimeout := False\<rparr>)"

text \<open>
  Time passing up to \<open>t\<close>: the timers due by then fire in the order of their due
  times (first set first among equals), the others stay pending. None of the
  callbacks sets a timer.
\<close>

definition fireAt :: "nat \<times> callback \<Rightarrow> client \<Rightarrow> client" where
  "fireAt dc c = fire (snd dc) (c\<lparr>clock := max (clock c) (fst dc)\<rparr>)"

definition elapse :: "nat \<Rightarrow> client \<Rightarrow> client" where
  "elapse t c =
     (let due = sort_key fst (filter (\<lambda>dc. fst dc \<le> t) (timers c));
          c1 = fold fireAt due (c\<lparr>timers := filter (\<lambda>dc. \<not> fst dc \<le> t) (timers c)\<rparr>)
      in c1\<lparr>clock := max (clock c1) t\<rparr>)"

section \<open>The client: tic-tac-toe\<close>

definition cell :: "mark option list \<Rightarrow> nat \<Rightarrow> mark option" where
  "cell b a = (if a < length b then b ! a else None)"

definition lines :: "(nat \<times> nat \<times> nat) list" where
  "lines = [(0, 1, 2), (3, 4, 5), (6, 7, 8),
            (0, 3, 6), (1, 4, 7), (2, 5, 8),
            (0, 4, 8), (2, 4, 6)]"

text \<open>The \<open>for\<close> loop of \<open>checkTicTacToeWinner\<close> over the eight lines.\<close>

fun winningLine :: "mark option list \<Rightarrow> (nat \<times> nat \<times> nat) list \<Rightarrow> (mark \<times> nat list) option" where
  "winningLine b [] = None"
| "winningLine b ((a1, a2, a3) # ls) =
     (case cell b a1 of
        Some m \<Rightarrow> if cell b a2 = Some m \<and> cell b a3 = Some m then Some (m, [a1, a2, a3])
                  else winningLine b ls
      | None \<Rightarrow> winningLine b ls)"

definition checkTicTacToeWinner :: "mark option list \<Rightarrow> (ttt_result \<times> nat list option) option" where
  "checkTicTacToeWinner b =
     (case winningLine b lines of
        Some (m, line) \<Rightarrow> Some (Won m, Some line)
      | None \<Rightarrow> if list_all (\<lambda>c. c \<noteq> None) b then Some (Draw, None) else None)"

text \<open>
  \<open>row * 3 + col\<close> with \<open>Math.floor\<close>. A zero cell size gives \<open>NaN\<close> or
  \<open>Infinity\<close> in JavaScript, an index at which the board reads \<open>undefined\<close>.
\<close>

definition cellIndex :: "real \<times> real \<Rightarrow> tictactoe \<Rightarrow> int option" where
  "cellIndex pos game =
     (let cellSize = ttt_size game / 3
      in if cellSize = 0 then None
         else Some (\<lfloor>(snd pos - ttt_y game) / cellSize\<rfloor> * 3 + \<lfloor>(fst pos - ttt_x game) / cellSize\<rfloor>))"

definition inBounds :: "real \<times> real \<Rightarrow> tictactoe \<Rightarrow> bool" where
  "inBounds pos game =
     (fst pos \<ge> ttt_x game \<and> fst pos \<le> ttt_x game + ttt_size game \<and>
      snd pos \<ge> ttt_y game \<and> snd pos \<le> ttt_y game + ttt_size game)"

text \<open>The first toucher becomes X, the first other toucher becomes O.\<close>

definition assignPlayers :: "conn_id \<Rightarrow> tictactoe \<Rightarrow> tictactoe" where
  "assignPlayers sid game =
     (let g1 = (if \<not> truthy (playerX game) then game\<lparr>playerX := Some sid\<rparr> else game)
      in if \<not> truthy (playerO g1) \<and> Some sid \<noteq> playerX g1 then g1\<lparr>playerO := Some sid\<rparr> else g1)"

definition notYourTurn :: "conn_id \<Rightarrow> tictactoe \<Rightarrow> bool" where
  "notYourTurn sid game =
     ((currentPlayer game = MarkX \<and> Some sid \<noteq> playerX game) \<or>
      (currentPlayer game = MarkO \<and> Some sid \<noteq> playerO game))"

definition makeMove :: "nat \<Rightarrow> tictactoe \<Rightarrow> tictactoe" where
  "makeMove k game =
     (let g1 = game\<lparr>board := (board game)[k := Some (currentPlayer game)]\<rparr>
      in case checkTicTacToeWinner (board g1) of
           Some (w, line) \<Rightarrow> g1\<lparr>winner := Some w, winLine := line\<rparr>
         | None \<Rightarrow> g1\<lparr>currentPlayer := (if currentPlayer g1 = MarkX then MarkO else MarkX)\<rparr>)"

text \<open>
  How one pass through the body of the loop of \<open>handleGameClick\<close> ends:
  \<open>return true\<close>, or on to the next element.
\<close>

datatype flow = Returned | Continues

text \<open>
  The body of the loop for a tic-tac-toe element: the element afterwards, whether
  \<open>game_move\<close> was emitted for it, and how the pass ended.
\<close>

definition tictactoeClick :: "conn_id \<Rightarrow> real \<times> real \<Rightarrow> tictactoe \<Rightarrow> tictactoe \<times> bool \<times> flow" where
  "tictactoeClick sid pos game =
     (if inBounds pos game then
        if winner game \<noteq> None then (game, False, Returned)
        else
          (let g2 = assignPlayers sid game
           in if notYourTurn sid g2 then (g2, False, Returned)
              else
                (case cellIndex pos g2 of
                   Some k \<Rightarrow>
                     if elemAt (board g2) k = Some None then (makeMove (nat k) g2, True, Returned)
                     else (g2, False, Continues)
                 | None \<Rightarrow> (g2, False, Continues)))
      else (game, False, Continues))"

section \<open>The client: ping-pong\<close>

definition emitGame :: "nat \<Rightarrow> pingpong \<Rightarrow> client \<Rightarrow> client" where
  "emitGame i game c =
     c\<lparr>outbox := outbox c @ [GameMove (currentRoom c) (int i) (Game (PingPong game))]\<rparr>"

definition inGameArea :: "real \<times> real \<Rightarrow> pingpong \<Rightarrow> bool" where
  "inGameArea pos game =
     (fst pos \<ge> pp_x game \<and> fst pos \<le> pp_x game + width game \<and>
      snd pos \<ge> pp_y game \<and> snd pos \<le> pp_y game + height game)"

definition onPaddle :: "real \<times> real \<Rightarrow> pingpong \<Rightarrow> paddle \<Rightarrow> bool" where
  "onPaddle pos game p =
     (let paddleX = pp_x game + pad_x p; paddleY = pp_y game + pad_y p
      in fst pos \<ge> paddleX - 20 \<and> fst pos \<le> paddleX + pad_width p + 20 \<and>
         snd pos \<ge> paddleY - 20 \<and> snd pos \<le> paddleY + pad_height p + 20)"

definition startIfReady :: "nat \<Rightarrow> pingpong \<times> client \<Rightarrow> pingpong \<times> client" where
  "startIfReady i gc =
     (let game = fst gc; c = snd gc
      in if \<not> gameStarted game \<and> truthy (playerLeft game) \<and> truthy (playerRight game)
         then (let g = game\<lparr>gameStarted := True\<rparr> in (g, emitGame i g (startPingPongLoop i c)))
         else (game, c))"

definition clickLeftPaddle :: "nat \<Rightarrow> pingpong \<Rightarrow> client \<Rightarrow> pingpong \<times> client" where
  "clickLeftPaddle i game c =
     (let g1 = (if \<not> truthy (playerLeft game) then game\<lparr>playerLeft := Some (socket_id c)\<rparr> else game);
          c1 = (if \<not> truthy (playerLeft game) then emitGame i g1 c else c);
          c2 = (if Some (socket_id c) = playerLeft g1
                then c1\<lparr>isDraggingPaddle := True, draggedPaddleGame := Some i,
                        draggedPaddleSide := Some SideLeft\<rparr>
                else c1)
      in startIfReady i (g1, c2))"

definition clickRightPaddle :: "nat \<Rightarrow> pingpong \<Rightarrow> client \<Rightarrow> pingpong \<times> client" where
  "clickRightPaddle i game c =
     (let claim = (\<not> truthy (playerRight game) \<and> Some (socket_id c) \<noteq> playerLeft game);
          g1 = (if claim then game\<lparr>playerRight := Some (socket_id c)\<rparr> else game);
          c1 = (if claim then emitGame i g1 c else c);
          c2 = (if Some (socket_id c) = playerRight g1
                then c1\<lparr>isDraggingPaddle := True, draggedPaddleGame := Some i,
                        draggedPaddleSide := Some SideRight\<rparr>
                else c1)
      in startIfReady i (g1, c2))"

text \<open>The body of the loop for a ping-pong element at index \<open>i\<close>.\<close>

definition pingpongClick :: "nat \<Rightarrow> real \<times> real \<Rightarrow> pingpong \<Rightarrow> client \<Rightarrow> client \<times> flow" where
  "pingpongClick i pos game c =
     (if inGameArea pos game then
        if pp_winner game \<noteq> None then (c, Returned)
        else if onPaddle pos game (paddleLeft game) then
          (let gc = clickLeftPaddle i game c
           in ((snd gc)\<lparr>paths := (paths (snd gc))[i := Game (PingPong (fst gc))]\<rparr>, Returned))
        else if onPaddle pos game (paddleRight game) then
          (let gc = clickRightPaddle i game c
           in ((snd gc)\<lparr>paths := (paths (snd gc))[i := Game (PingPong (fst gc))]\<rparr>, Returned))
        else (c, Returned)
      else (c, Continues))"

text \<open>
  \<open>handleGameClick\<close>: the loop over \<open>paths\<close> from index \<open>i\<close>, with \<open>n\<close> elements
  still to visit. The result says whether the click was consumed.
\<close>

fun gameClickLoop :: "real \<times> real \<Rightarrow> nat \<Rightarrow> nat \<Rightarrow> client \<Rightarrow> bool \<times> client" where
  "gameClickLoop pos i 0 c = (False, c)"
| "gameClickLoop pos i (Suc n) c =
     (case elemAt (paths c) (int i) of
        Some (Game (TicTacToe game)) \<Rightarrow>
          (case tictactoeClick (socket_id c) pos game of
             (game', emits, fl) \<Rightarrow>
               (let c1 = c\<lparr>paths := (paths c)[i := Game (TicTacToe game')]\<rparr>;
                    c2 = (if emits
                          then c1\<lparr>outbox := outbox c1 @
                                 [GameMove (currentRoom c1) (int i) (Game (TicTacToe game'))]\<rparr>
                          else c1)
                in if fl = Returned then (True, c2) else gameClickLoop pos (Suc i) n c2))
      | Some (Game (PingPong game)) \<Rightarrow>
          (case pingpongClick i pos game c of
             (c1, fl) \<Rightarrow> if fl = Returned then (True, c1) else gameClickLoop pos (Suc i) n c1)
      | _ \<Rightarrow> gameClickLoop pos (Suc i) n c)"

definition handleGameClick :: "real \<times> real \<Rightarrow> client \<Rightarrow> bool \<times> client" where
  "handleGameClick pos c = gameClickLoop pos 0 (length (paths c)) c"

text \<open>Dragging a paddle, in \<open>handlePointerMove\<close>.\<close>

definition clampPaddle :: "pingpong \<Rightarrow> paddle \<Rightarrow> real \<Rightarrow> paddle" where
  "clampPaddle game p relativeY =
     p\<lparr>pad_y := max 0 (min (height game - pad_height p) (relativeY - pad_height p / 2))\<rparr>"

definition handlePointerMove_paddle :: "real \<times> real \<Rightarrow> client \<Rightarrow> client" where
  "handlePointerMove_paddle pos c =
     (case draggedPaddleGame c of
        Some i \<Rightarrow>
          (if isDraggingPaddle c then
             (case elemAt (paths c) (int i) of
                Some (Game (PingPong game)) \<Rightarrow>
                  (let relativeY = snd pos - pp_y game;
                       g1 = (if draggedPaddleSide c = Some SideLeft \<and> Some (socket_id c) = playerLeft game
                             then game\<lparr>paddleLeft := clampPaddle game (paddleLeft game) relativeY\<rparr>
                             else if draggedPaddleSide c = Some SideRight \<and> Some (socket_id c) = playerRight game
                             then game\<lparr>paddleRight := clampPaddle game (paddleRight game) relativeY\<rparr>
                             else game)
                   in throttledPaddleSync (c\<lparr>paths := (paths c)[i := Game (PingPong g1)]\<rparr>))
              | _ \<Rightarrow> c)
           else c)
      | None \<Rightarrow> c)"

text \<open>
  The physics of one tick, run by the left player only. \<open>rnd\<close> gives the successive
  values of \<open>Math.random()\<close>; \<open>resetBall\<close> draws two of them.
\<close>

definition resetBall :: "real \<Rightarrow> real \<Rightarrow> pingpong \<Rightarrow> pingpong" where
  "resetBall r1 r2 game =
     game\<lparr>ball := (ball game)\<lparr>ball_x := width game / 2, ball_y := height game / 2,
                              ball_dx := (if r1 > 0.5 then 1 else - 1) * 4,
                              ball_dy := (r2 - 0.5) * 4\<rparr>\<rparr>"

definition moveBall :: "real \<Rightarrow> pingpong \<Rightarrow> pingpong" where
  "moveBall deltaTime game =
     (let b = ball game
      in game\<lparr>ball := b\<lparr>ball_x := ball_x b + ball_dx b * deltaTime,
                         ball_y := ball_y b + ball_dy b * deltaTime\<rparr>\<rparr>)"

definition wallBounce :: "pingpong \<Rightarrow> pingpong" where
  "wallBounce game =
     (let b = ball game
      in if ball_y b - ball_radius b \<le> 0 \<or> ball_y b + ball_radius b \<ge> height game
         then game\<lparr>ball := b\<lparr>ball_dy := ball_dy b * (- 1),
                              ball_y := (if ball_y b - ball_radius b \<le> 0 then ball_radius b
                                         else height game - ball_radius b)\<rparr>\<rparr>
         else game)"

definition hitLeftPaddle :: "pingpong \<Rightarrow> pingpong" where
  "hitLeftPaddle game =
     (let b = ball game; p = paddleLeft game
      in if ball_x b - ball_radius b \<le> pad_x p + pad_width p \<and> ball_x b \<ge> pad_x p \<and>
            ball_y b \<ge> pad_y p \<and> ball_y b \<le> pad_y p + pad_height p
         then game\<lparr>ball := b\<lparr>ball_dx := \<bar>ball_dx b\<bar>,
                              ball_x := pad_x p + pad_width p + ball_radius b,
                              ball_dy := ((ball_y b - pad_y p) / pad_height p - 0.5) * 8\<rparr>\<rparr>
         else game)"

definition hitRightPaddle :: "pingpong \<Rightarrow> pingpong" where
  "hitRightPaddle game =
     (let b = ball game; p = paddleRight game
      in if ball_x b + ball_radius b \<ge> pad_x p \<and> ball_x b \<le> pad_x p + pad_width p \<and>
            ball_y b \<ge> pad_y p \<and> ball_y b \<le> pad_y p + pad_height p
         then game\<lparr>ball := b\<lparr>ball_dx := - \<bar>ball_dx b\<bar>,
                              ball_x := pad_x p - ball_radius b,
                              ball_dy := ((ball_y b - pad_y p) / pad_height p - 0.5) * 8\<rparr>\<rparr>
         else game)"

text \<open>Scoring: the game afterwards, the number of random values drawn so far, and
  whether the interval was cleared.\<close>

definition offLeft :: "(nat \<Rightarrow> real) \<Rightarrow> pingpong \<times> nat \<times> bool \<Rightarrow> pingpong \<times> nat \<times> bool" where
  "offLeft rnd st =
     (case st of (game, k, stop) \<Rightarrow>
        if ball_x (ball game) - ball_radius (ball game) \<le> 0 then
          (let g1 = game\<lparr>paddleRight := (paddleRight game)\<lparr>score := score (paddleRight game) + 1\<rparr>\<rparr>;
               g2 = resetBall (rnd k) (rnd (k + 1)) g1
           in if score (paddleRight g2) \<ge> 7
              then (g2\<lparr>pp_winner := Some SideRight\<rparr>, k + 2, True)
              else (g2, k + 2, stop))
        else (game, k, stop))"

definition offRight :: "(nat \<Rightarrow> real) \<Rightarrow> pingpong \<times> nat \<times> bool \<Rightarrow> pingpong \<times> nat \<times> bool" where
  "offRight rnd st =
     (case st of (game, k, stop) \<Rightarrow>
        if ball_x (ball game) + ball_radius (ball game) \<ge> width game then
          (let g1 = game\<lparr>paddleLeft := (paddleLeft game)\<lparr>score := score (paddleLeft game) + 1\<rparr>\<rparr>;
               g2 = resetBall (rnd k) (rnd (k + 1)) g1
           in if score (paddleLeft g2) \<ge> 7
              then (g2\<lparr>pp_winner := Some SideLeft\<rparr>, k + 2, True)
              else (g2, k + 2, stop))
        else (game, k, stop))"

definition physicsStep :: "real \<Rightarrow> (nat \<Rightarrow> real) \<Rightarrow> pingpong \<Rightarrow> pingpong \<times> bool" where
  "physicsStep deltaTime rnd game =
     (case offRight rnd (offLeft rnd
             (hitRightPaddle (hitLeftPaddle (wallBounce (moveBall deltaTime game))), 0, False)) of
        (g, k, stop) \<Rightarrow> (g, stop))"

text \<open>
  One run of the interval callback that \<open>startPingPongLoop\<close> installs for
  \<open>gameIndex\<close>; \<open>now\<close> is \<open>Date.now()\<close>.
\<close>

definition pingPongTick :: "nat \<Rightarrow> real \<Rightarrow> (nat \<Rightarrow> real) \<Rightarrow> client \<Rightarrow> client" where
  "pingPongTick gameIndex now rnd c =
     (if gameIndex \<notin> pingPongLoops c then c
      else
        (case elemAt (paths c) (int gameIndex) of
           Some (Game (PingPong game)) \<Rightarrow>
             if pp_winner game \<noteq> None \<or> \<not> gameStarted game \<or> paused game then c
             else if \<not> truthy (playerLeft game) \<or> \<not> truthy (playerRight game) then c
             else
               (let deltaTime = (now - lastUpdate game) / (1667 / 100);
                    g1 = game\<lparr>lastUpdate := now\<rparr>
                in if Some (socket_id c) = playerLeft g1 then
                     (case physicsStep deltaTime rnd g1 of
                        (g2, stop) \<Rightarrow>
                          emitGame gameIndex g2
                            (c\<lparr>paths := (paths c)[gameIndex := Game (PingPong g2)],
                               pingPongLoops := (if stop then pingPongLoops c - {gameIndex}
                                                 else pingPongLoops c)\<rparr>))
                   else c\<lparr>paths := (paths c)[gameIndex := Game (PingPong g1)]\<rparr>)
         | _ \<Rightarrow> c\<lparr>pingPongLoops := pingPongLoops c - {gameIndex}\<rparr>))"

section \<open>Example states\<close>

definition exLine :: element where
  "exLine = Line ''#000000'' [(0, 0), (1, 1), (2, 2)]"

definition exRoom :: room where
  "exRoom = \<lparr>elements = [exLine], chat = [], background = ''dots''\<rparr>"

definition exServer :: server where
  "exServer = \<lparr>roomStorage = [''1'' \<mapsto> exRoom],
               rooms = (\<lambda>r. if r = ''1'' then {''A'', ''B''} else {}),
               prototypes = prototypes0\<rparr>"

definition exTicTacToe :: tictactoe where
  "exTicTacToe = \<lparr>ttt_x = 100, ttt_y = 100, ttt_size = 300,
      board = [None, None, None, None, None, None, None, None, None],
      currentPlayer = MarkX, winner = None, winLine = None,
      playerX = None, playerO = None\<rparr>"

definition exGame :: element where
  "exGame = Game (TicTacToe exTicTacToe)"

definition exLaser :: laser where
  "exLaser = \<lparr>laser_points = [(5, 5), (6, 6)], laser_timestamp = 7\<rparr>"

definition exTrace :: "(conn_id \<times> nat \<times> event) list" where
  "exTrace = [(''A'', 0, JoinRoom ''1''), (''A'', 1, LaserPointer ''1'' exLaser),
              (''A'', 2, NewElement ''1'' exLine), (''B'', 3, LaserPointer ''1'' exLaser)]"

definition exPlayed :: tictactoe where
  "exPlayed = exTicTacToe\<lparr>board := [None, None, None, None, Some MarkX, None, None, None, None],
                           currentPlayer := MarkO, playerX := Some ''A''\<rparr>"

definition exPingPong :: pingpong where
  "exPingPong = \<lparr>pp_x = 0, pp_y = 0, width = 600, height = 400,
      ball = \<lparr>ball_x = 300, ball_y = 200, ball_dx = 4, ball_dy = 3, ball_radius = 8\<rparr>,
      paddleLeft = \<lparr>pad_x = 20, pad_y = 170, pad_width = 12, pad_height = 60, score = 0\<rparr>,
      paddleRight = \<lparr>pad_x = 568, pad_y = 170, pad_width = 12, pad_height = 60, score = 0\<rparr>,
      playerLeft = Some ''A'', playerRight = Some ''B'',
      gameStarted = True, paused = False, pp_winner = None, lastUpdate = 1000\<rparr>"

definition exStale :: pingpong where
  "exStale = exPingPong\<lparr>ball := (ball exPingPong)\<lparr>ball_x := 123, ball_dx := - 4\<rparr>\<rparr>"

definition exClient :: "conn_id \<Rightarrow> element list \<Rightarrow> client" where
  "exClient sid ps =
     \<lparr>socket_id = sid, currentRoom = ''1'', paths = ps, isLocalUpdate = False,
      selectedImage = None, isDraggingImage = False, isResizingImage = False,
      isDraggingPaddle = False, draggedPaddleGame = None, draggedPaddleSide = None,
      syncTimeout = False, paddleSyncTimeout = False, pingPongLoops = {},
      clock = 0, timers = [], outbox = []\<rparr>"

definition exPongServer :: server where
  "exPongServer = \<lparr>roomStorage = [''1'' \<mapsto> \<lparr>elements = [Game (PingPong exPingPong)], chat = [],
                                               background = ''dots''\<rparr>],
                   rooms = (\<lambda>r. if r = ''1'' then {''A'', ''B''} else {}),
               prototypes = prototypes0\<rparr>"

definition exMoved :: pingpong where
  "exMoved = exStale\<lparr>paddleRight := (paddleRight exStale)\<lparr>pad_y := 70\<rparr>\<rparr>"

definition exDragging :: client where
  "exDragging = (exClient ''B'' [Game (PingPong exStale)])
     \<lparr>isDraggingPaddle := True, draggedPaddleGame := Some 0, draggedPaddleSide := Some SideRight\<rparr>"

definition exImageDrag :: client where
  "exImageDrag = (exClient ''A'' [Image ''/uploads/a.png''])
     \<lparr>selectedImage := Some 0, isDraggingImage := True\<rparr>"

definition exRnd :: "nat \<Rightarrow> real" where
  "exRnd k = 3 / 4"

definition exTicking :: client where
  "exTicking = (exClient ''B'' [Game (PingPong exPingPong)])\<lparr>pingPongLoops := {0}\<rparr>"

definition exIdle :: client where
  "exIdle = exClient ''A'' [exLine]"

section \<open>Properties of the server\<close>

lemma lookup_own: "roomStorage s r = Some rm \<Longrightarrow> lookup s r = OwnRoom rm"
  by (simp add: lookup_def)

lemma laser_pointer_after: "after (laser_pointer sid r l s) = s"
  by (simp add: laser_pointer_def split: slot.splits)

lemma laser_pointer_thrown: "thrown (laser_pointer sid r l s) = None"
  by (simp add: laser_pointer_def split: slot.splits)

lemma run_filter_laser:
  "run s (filter (\<lambda>a. \<not> is_laser (snd (snd a))) evs) = run s evs"
proof (induction evs arbitrary: s)
  case Nil
  then show ?case by simp
next
  case (Cons a evs)
  obtain sid now ev where a: "a = (sid, now, ev)" by (cases a) auto
  show ?case
  proof (cases "is_laser ev")
    case True
    then obtain r l where "ev = LaserPointer r l" by (cases ev) auto
    with a Cons.IH show ?thesis by (simp add: laser_pointer_after laser_pointer_thrown)
  next
    case False
    with a Cons.IH show ?thesis by simp
  qed
qed

text \<open>
  C9. A \<open>new_element\<close> on an existing room appends: the element lands at the index
  equal to the previous length, the length grows by one, the elements stored before
  keep their positions, and nothing else in the table changes. (The handler itself
  returns no value; the assigned index is the position of the pushed element.)
\<close>

theorem new_element_appends:
  assumes "roomStorage s r = Some rm"
  shows "after (handle sid now (NewElement r e) s) =
           s\<lparr>roomStorage := (roomStorage s)(r \<mapsto> rm\<lparr>elements := elements rm @ [e]\<rparr>)\<rparr>
         \<and> length (elements rm @ [e]) = length (elements rm) + 1
         \<and> elemAt (elements rm @ [e]) (int (length (elements rm))) = Some e
         \<and> (\<forall>i < length (elements rm). (elements rm @ [e]) ! i = elements rm ! i)"
  using assms by (simp add: new_element_def lookup_own elemAt_def nth_append)

theorem new_element_appends_witness:
  "roomStorage exServer ''1'' = Some exRoom
   \<and> after (handle ''A'' 3 (NewElement ''1'' exGame) exServer) =
       exServer\<lparr>roomStorage := [''1'' \<mapsto> exRoom\<lparr>elements := [exLine, exGame]\<rparr>]\<rparr>
   \<and> elemAt [exLine, exGame] 1 = Some exGame"
  using new_element_appends [of exServer "''1''" exRoom "''A''" 3 exGame]
  by (simp add: exServer_def exRoom_def)




text \<open>
  A room-scoped event other than join whose key reads falsy in \<open>roomStorage\<close> is
  dropped: the state stays as it was, nothing is emitted and nothing is thrown.
\<close>

lemma falsy_key_dropped:
  assumes "scoped_room ev = Some r" and "lookup s r = Missing"
  shows "after (handle sid now ev s) = s \<and> sent (handle sid now ev s) = []
         \<and> thrown (handle sid now ev s) = None"
  using assms
  by (cases ev)
     (simp_all add: new_element_def full_sync_def chat_message_def laser_pointer_def
        background_change_def game_move_def)

lemma inherited_constructor:
  "lookup server0 ''constructor'' = Inherited (BuiltinFunction ''constructor'')"
  by (simp add: lookup_def server0_def inheritedLookup_def builtinFunctions_def)

text \<open>
  C6 fails on the code. The key \<open>constructor\<close> is not in the table of a server that
  has just started, yet \<open>roomStorage['constructor']\<close> is truthy (it is the function
  \<open>Object\<close>), so the guard of every handler passes. A \<open>new_element\<close>, a
  \<open>chat_message\<close> and a \<open>game_move\<close> then throw a \<open>TypeError\<close>; a \<open>full_sync\<close> writes
  \<open>Object.elements\<close> and is broadcast; a \<open>laser_pointer\<close> is broadcast.
\<close>

theorem unknown_room_inherited_key:
  "roomStorage server0 ''constructor'' = None
   \<and> thrown (handle ''A'' 0 (NewElement ''constructor'' exLine) server0) = Some TypeError
   \<and> thrown (handle ''A'' 0 (ChatMessage ''constructor'' ''hi'') server0) = Some TypeError
   \<and> thrown (handle ''A'' 0 (GameMove ''constructor'' 0 exGame) server0) = Some TypeError
   \<and> sent (handle ''A'' 0 (FullSync ''constructor'' [exLine]) server0)
       = [ToRoom ''constructor'' (CanvasData [exLine])]
   \<and> fn_elements (prototypes (after (handle ''A'' 0 (FullSync ''constructor'' [exLine]) server0)))
        ''constructor'' = Some [exLine]
   \<and> after (handle ''A'' 0 (FullSync ''constructor'' [exLine]) server0) \<noteq> server0
   \<and> sent (handle ''A'' 0 (LaserPointer ''constructor'' exLaser) server0)
       = [ToRoom ''constructor'' (LaserReceived exLaser)]"
proof -
  have 1: "roomStorage server0 ''constructor'' = None"
    by (simp add: server0_def)
  have 2: "fn_elements (prototypes server0) ''constructor'' = None
           \<and> proto_elements (prototypes server0) = None"
    by (simp add: server0_def prototypes0_def)
  have 3: "thrown (handle ''A'' 0 (NewElement ''constructor'' exLine) server0) = Some TypeError"
    by (simp add: new_element_def inherited_constructor 2)
  have 4: "thrown (handle ''A'' 0 (ChatMessage ''constructor'' ''hi'') server0) = Some TypeError"
    by (simp add: chat_message_def inherited_constructor)
  have 5: "thrown (handle ''A'' 0 (GameMove ''constructor'' 0 exGame) server0) = Some TypeError"
    by (simp add: game_move_def inherited_constructor 2)
  have 6: "sent (handle ''A'' 0 (FullSync ''constructor'' [exLine]) server0)
             = [ToRoom ''constructor'' (CanvasData [exLine])]"
    by (simp add: full_sync_def inherited_constructor)
  have 7: "fn_elements (prototypes (after (handle ''A'' 0 (FullSync ''constructor'' [exLine]) server0)))
             ''constructor'' = Some [exLine]"
    by (simp add: full_sync_def inherited_constructor onPrototypes_def)
  have 8: "fn_elements (prototypes server0) ''constructor'' = None"
    by (simp add: server0_def prototypes0_def)
  have 9: "after (handle ''A'' 0 (FullSync ''constructor'' [exLine]) server0) \<noteq> server0"
    using 7 8 by auto
  have 10: "sent (handle ''A'' 0 (LaserPointer ''constructor'' exLaser) server0)
              = [ToRoom ''constructor'' (LaserReceived exLaser)]"
    by (simp add: laser_pointer_def inherited_constructor)
  from 1 3 4 5 6 7 9 10 show ?thesis by (intro conjI)
qed

text \<open>
  C4. Whatever a room-scoped event other than join makes the server emit goes to the
  sockets that joined the room, the sender excepted; the sender is never a recipient.
\<close>

theorem no_self_echo:
  assumes "scoped_room ev = Some r" and "em \<in> set (sent (handle sid now ev s))"
  shows "recipients (after (handle sid now ev s)) sid em = rooms s r - {sid}
         \<and> sid \<notin> recipients (after (handle sid now ev s)) sid em"
  using assms
  by (cases ev)
     (auto simp add: new_element_def full_sync_def chat_message_def laser_pointer_def
        background_change_def game_move_def onPrototypes_def Let_def
        split: slot.splits option.splits)

theorem no_self_echo_witness:
  "scoped_room (NewElement ''1'' exGame) = Some ''1''
   \<and> ToRoom ''1'' (ElementReceived exGame) \<in> set (sent (handle ''A'' 0 (NewElement ''1'' exGame) exServer))
   \<and> recipients (after (handle ''A'' 0 (NewElement ''1'' exGame) exServer)) ''A''
        (ToRoom ''1'' (ElementReceived exGame)) = {''B''}"
proof -
  have 1: "scoped_room (NewElement ''1'' exGame) = Some ''1''" by simp
  have 2: "ToRoom ''1'' (ElementReceived exGame)
             \<in> set (sent (handle ''A'' 0 (NewElement ''1'' exGame) exServer))"
    by (simp add: new_element_def lookup_def exServer_def)
  have 3: "rooms exServer ''1'' - {''A''} = {''B''}"
    by (auto simp add: exServer_def)
  from no_self_echo [OF 1 2] 1 2 3 show ?thesis by simp
qed

text \<open>
  A join whose key reads falsy in \<open>roomStorage\<close> stores a fresh room; a join on a
  room of the table leaves the table as it was. In both cases the three emissions
  go to the joining socket alone and carry the room's elements, chat history and
  background (\<open>dots\<close> standing in for an empty background).
\<close>

lemma join_room_table:
  "(lookup s r = Missing \<longrightarrow>
       roomStorage (after (handle sid now (JoinRoom r) s)) = (roomStorage s)(r \<mapsto> newRoom)
     \<and> sent (handle sid now (JoinRoom r) s) = greeting newRoom)
   \<and> (roomStorage s r = Some rm \<longrightarrow>
       roomStorage (after (handle sid now (JoinRoom r) s)) = roomStorage s
     \<and> sent (handle sid now (JoinRoom r) s) = greeting rm)
   \<and> rooms (after (handle sid now (JoinRoom r) s)) = (rooms s)(r := insert sid (rooms s r))
   \<and> thrown (handle sid now (JoinRoom r) s) = None
   \<and> (\<forall>em \<in> set (sent (handle sid now (JoinRoom r) s)).
         recipients (after (handle sid now (JoinRoom r) s)) sid em = {sid})"
  by (cases "lookup s r")
     (auto simp add: join_room_def lookup_def greeting_def Let_def split: option.splits)

text \<open>
  C5 fails on the code. \<open>constructor\<close> is a room id no one has joined, yet
  \<open>!roomStorage['constructor']\<close> is false, so the join creates no room; the joining
  socket is sent \<open>undefined\<close> for the elements and for the chat history.
\<close>

theorem join_inherited_key:
  "roomStorage server0 ''constructor'' = None
   \<and> roomStorage (after (handle ''A'' 0 (JoinRoom ''constructor'') server0)) ''constructor'' = None
   \<and> sent (handle ''A'' 0 (JoinRoom ''constructor'') server0)
       = [Emit CanvasDataUndefined, Emit ChatHistoryUndefined, Emit (BackgroundUpdated ''dots'')]"
  by (simp add: join_room_def lookup_def server0_def inheritedLookup_def builtinFunctions_def
        prototypes0_def Let_def)

text \<open>
  C10. On an existing room a \<open>game_move\<close> is relayed to the other members of the
  room whether or not the table was updated; when the index holds no element the
  table is left as it was and the relay still happens.
\<close>

theorem game_move_always_broadcast:
  assumes "roomStorage s r = Some rm"
  shows "sent (handle sid now (GameMove r i g) s) = [ToRoom r (GameMoveReceived i g)]
         \<and> recipients (after (handle sid now (GameMove r i g) s)) sid (ToRoom r (GameMoveReceived i g))
             = rooms s r - {sid}
         \<and> (elemAt (elements rm) i = None \<longrightarrow> after (handle sid now (GameMove r i g) s) = s)"
  using assms by (auto simp add: game_move_def lookup_own split: option.splits)

theorem game_move_always_broadcast_witness:
  "roomStorage exServer ''1'' = Some exRoom
   \<and> elemAt (elements exRoom) 5 = None
   \<and> sent (handle ''A'' 0 (GameMove ''1'' 5 exGame) exServer) = [ToRoom ''1'' (GameMoveReceived 5 exGame)]
   \<and> recipients (after (handle ''A'' 0 (GameMove ''1'' 5 exGame) exServer)) ''A''
        (ToRoom ''1'' (GameMoveReceived 5 exGame)) = {''B''}
   \<and> after (handle ''A'' 0 (GameMove ''1'' 5 exGame) exServer) = exServer"
proof -
  have 1: "roomStorage exServer ''1'' = Some exRoom" by (simp add: exServer_def)
  have 2: "elemAt (elements exRoom) 5 = None" by (simp add: exRoom_def elemAt_def)
  have 3: "rooms exServer ''1'' - {''A''} = {''B''}" by (auto simp add: exServer_def)
  from game_move_always_broadcast [OF 1, of "''A''" 0 5 exGame] 1 2 3 show ?thesis by simp
qed

text \<open>
  C8. A \<open>laser_pointer\<close> on an existing room is relayed by a single
  \<open>socket.to(room).emit\<close> and leaves the server state as it was. Hence after any
  sequence of events the state is the one reached without the laser events, and what
  a later join reads is the same.
\<close>

theorem laser_never_stored:
  "(roomStorage s r \<noteq> None \<longrightarrow>
       sent (handle sid now (LaserPointer r l) s) = [ToRoom r (LaserReceived l)])
   \<and> after (handle sid now (LaserPointer r l) s) = s
   \<and> run s evs = run s (filter (\<lambda>a. \<not> is_laser (snd (snd a))) evs)
   \<and> sent (handle sid' now' (JoinRoom r') (run s evs)) =
       sent (handle sid' now' (JoinRoom r') (run s (filter (\<lambda>a. \<not> is_laser (snd (snd a))) evs)))"
proof -
  have "roomStorage s r \<noteq> None \<longrightarrow>
          sent (handle sid now (LaserPointer r l) s) = [ToRoom r (LaserReceived l)]"
    by (auto simp add: laser_pointer_def lookup_def)
  moreover have "after (handle sid now (LaserPointer r l) s) = s"
    by (simp add: laser_pointer_after)
  ultimately show ?thesis
    by (simp add: run_filter_laser)
qed

theorem laser_never_stored_witness:
  "roomStorage exServer ''1'' \<noteq> None
   \<and> sent (handle ''A'' 0 (LaserPointer ''1'' exLaser) exServer) = [ToRoom ''1'' (LaserReceived exLaser)]
   \<and> after (handle ''A'' 0 (LaserPointer ''1'' exLaser) exServer) = exServer
   \<and> roomStorage (run server0 exTrace) = [''1'' \<mapsto> exRoom]
   \<and> sent (handle ''B'' 4 (JoinRoom ''1'') (run server0 exTrace)) =
       [Emit (CanvasData [exLine]), Emit (ChatHistory []), Emit (BackgroundUpdated ''dots'')]"
proof -
  have 1: "roomStorage exServer ''1'' \<noteq> None" by (simp add: exServer_def)
  have 2: "filter (\<lambda>a. \<not> is_laser (snd (snd a))) exTrace
             = [(''A'', 0, JoinRoom ''1''), (''A'', 2, NewElement ''1'' exLine)]"
    by (simp add: exTrace_def)
  have 0: "inheritedLookup prototypes0 ''1'' = None"
    by (simp add: inheritedLookup_def builtinFunctions_def)
  have 3: "run server0 [(''A'', 0, JoinRoom ''1''), (''A'', 2, NewElement ''1'' exLine)]
             = \<lparr>roomStorage = [''1'' \<mapsto> exRoom], rooms = (\<lambda>r. {})(''1'' := {''A''}),
                prototypes = prototypes0\<rparr>"
    by (simp add: join_room_def new_element_def 0 lookup_def newRoom_def exRoom_def Let_def
          server0_def)
  have 4: "sent (handle ''B'' 4 (JoinRoom ''1'')
             \<lparr>roomStorage = [''1'' \<mapsto> exRoom], rooms = (\<lambda>r. {})(''1'' := {''A''}),
              prototypes = prototypes0\<rparr>) =
       [Emit (CanvasData [exLine]), Emit (ChatHistory []), Emit (BackgroundUpdated ''dots'')]"
    by (simp add: join_room_def lookup_def greeting_def exRoom_def Let_def orDots_def)
  from laser_never_stored [of exServer "''1''" "''A''" 0 exLaser exTrace "''B''" 4 "''1''"]
       laser_never_stored [of server0 "''1''" "''A''" 0 exLaser exTrace "''B''" 4 "''1''"]
       1 2 3 4
  show ?thesis by simp
qed

section \<open>Properties of the client\<close>

lemma cellIndex_assignPlayers: "cellIndex pos (assignPlayers sid game) = cellIndex pos game"
  by (simp add: cellIndex_def assignPlayers_def Let_def)

lemma assignPlayers_keeps:
  "board (assignPlayers sid game) = board game"
  "currentPlayer (assignPlayers sid game) = currentPlayer game"
  "winner (assignPlayers sid game) = winner game"
  "winLine (assignPlayers sid game) = winLine game"
  by (simp_all add: assignPlayers_def Let_def)

lemma makeMove_board: "board (makeMove k game) = (board game)[k := Some (currentPlayer game)]"
  by (simp add: makeMove_def Let_def split: option.splits prod.splits)

lemma makeMove_no_winner:
  assumes "checkTicTacToeWinner ((board game)[k := Some (currentPlayer game)]) = None"
  shows "currentPlayer (makeMove k game) = (if currentPlayer game = MarkX then MarkO else MarkX)"
    and "winner (makeMove k game) = winner game"
    and "winLine (makeMove k game) = winLine game"
  using assms by (simp_all add: makeMove_def Let_def)

lemma makeMove_winner:
  assumes "checkTicTacToeWinner ((board game)[k := Some (currentPlayer game)]) = Some (w, l)"
  shows "currentPlayer (makeMove k game) = currentPlayer game"
    and "winner (makeMove k game) = Some w"
    and "winLine (makeMove k game) = l"
  using assms by (simp_all add: makeMove_def Let_def)

lemma holder_passes_turn_check:
  assumes "sid \<noteq> []"
    and "(currentPlayer game = MarkX \<and> playerX game = Some sid)
         \<or> (currentPlayer game = MarkO \<and> playerO game = Some sid)"
  shows "\<not> notYourTurn sid (assignPlayers sid game)"
  using assms by (auto simp add: notYourTurn_def assignPlayers_def truthy_def Let_def)

lemma tictactoeClick_moves:
  assumes "inBounds pos game" and "winner game = None"
    and "\<not> notYourTurn sid (assignPlayers sid game)"
    and "cellIndex pos game = Some k" and "elemAt (board game) k = Some None"
  shows "tictactoeClick sid pos game = (makeMove (nat k) (assignPlayers sid game), True, Returned)"
  using assms
  by (simp add: tictactoeClick_def Let_def cellIndex_assignPlayers assignPlayers_keeps)

lemma tictactoeClick_occupied:
  assumes "cellIndex pos game = Some k" and "elemAt (board game) k = Some (Some m)"
  shows "tictactoeClick sid pos game = (game, False, Returned)
         \<or> tictactoeClick sid pos game = (game, False, Continues)
         \<or> tictactoeClick sid pos game = (assignPlayers sid game, False, Returned)
         \<or> tictactoeClick sid pos game = (assignPlayers sid game, False, Continues)"
  using assms
  by (simp add: tictactoeClick_def Let_def cellIndex_assignPlayers assignPlayers_keeps)

text \<open>
  C7 (as amended). In a tic-tac-toe element without a winner, a click inside the
  element on an empty cell by a connection that passes the turn check (after the
  first-touch assignment of X and O) puts \<open>currentPlayer\<close> into that cell and emits
  \<open>game_move\<close>; \<open>currentPlayer\<close> flips when the new board has no result, otherwise
  \<open>winner\<close> and \<open>winLine\<close> are set and \<open>currentPlayer\<close> stays. A click by any
  connection on an occupied cell leaves \<open>board\<close>, \<open>currentPlayer\<close>, \<open>winner\<close> and
  \<open>winLine\<close> as they were and emits nothing for the element.
\<close>

theorem tictactoe_move:
  "(inBounds pos game \<and> winner game = None \<and> \<not> notYourTurn sid (assignPlayers sid game)
      \<and> cellIndex pos game = Some k \<and> elemAt (board game) k = Some None \<longrightarrow>
      (\<exists>g'. tictactoeClick sid pos game = (g', True, Returned)
         \<and> board g' = (board game)[nat k := Some (currentPlayer game)]
         \<and> (checkTicTacToeWinner (board g') = None \<longrightarrow>
               currentPlayer g' = (if currentPlayer game = MarkX then MarkO else MarkX)
             \<and> winner g' = None \<and> winLine g' = winLine game)
         \<and> (\<forall>w l. checkTicTacToeWinner (board g') = Some (w, l) \<longrightarrow>
               winner g' = Some w \<and> winLine g' = l \<and> currentPlayer g' = currentPlayer game)))
   \<and> (cellIndex pos game = Some k \<and> elemAt (board game) k = Some (Some m) \<longrightarrow>
      (\<exists>g' fl. tictactoeClick sid' pos game = (g', False, fl)
         \<and> board g' = board game \<and> currentPlayer g' = currentPlayer game
         \<and> winner g' = winner game \<and> winLine g' = winLine game))"
proof (intro conjI impI)
  assume a: "inBounds pos game \<and> winner game = None \<and> \<not> notYourTurn sid (assignPlayers sid game)
      \<and> cellIndex pos game = Some k \<and> elemAt (board game) k = Some None"
  let ?g = "makeMove (nat k) (assignPlayers sid game)"
  let ?b = "(board game)[nat k := Some (currentPlayer game)]"
  have click: "tictactoeClick sid pos game = (?g, True, Returned)"
    using a by (simp add: tictactoeClick_moves)
  have b: "board ?g = ?b"
    by (simp add: makeMove_board assignPlayers_keeps)
  have none: "checkTicTacToeWinner (board ?g) = None \<longrightarrow>
               currentPlayer ?g = (if currentPlayer game = MarkX then MarkO else MarkX)
             \<and> winner ?g = None \<and> winLine ?g = winLine game"
  proof
    assume "checkTicTacToeWinner (board ?g) = None"
    then have n: "checkTicTacToeWinner
        ((board (assignPlayers sid game))[nat k := Some (currentPlayer (assignPlayers sid game))]) = None"
      by (simp add: b assignPlayers_keeps)
    from makeMove_no_winner [OF n] a
    show "currentPlayer ?g = (if currentPlayer game = MarkX then MarkO else MarkX)
             \<and> winner ?g = None \<and> winLine ?g = winLine game"
      by (simp add: assignPlayers_keeps)
  qed
  have some: "\<forall>w l. checkTicTacToeWinner (board ?g) = Some (w, l) \<longrightarrow>
               winner ?g = Some w \<and> winLine ?g = l \<and> currentPlayer ?g = currentPlayer game"
  proof (intro allI impI)
    fix w l
    assume "checkTicTacToeWinner (board ?g) = Some (w, l)"
    then have n: "checkTicTacToeWinner
        ((board (assignPlayers sid game))[nat k := Some (currentPlayer (assignPlayers sid game))]) = Some (w, l)"
      by (simp add: b assignPlayers_keeps)
    from makeMove_winner [OF n]
    show "winner ?g = Some w \<and> winLine ?g = l \<and> currentPlayer ?g = currentPlayer game"
      by (simp add: assignPlayers_keeps)
  qed
  show "\<exists>g'. tictactoeClick sid pos game = (g', True, Returned)
         \<and> board g' = (board game)[nat k := Some (currentPlayer game)]
         \<and> (checkTicTacToeWinner (board g') = None \<longrightarrow>
               currentPlayer g' = (if currentPlayer game = MarkX then MarkO else MarkX)
             \<and> winner g' = None \<and> winLine g' = winLine game)
         \<and> (\<forall>w l. checkTicTacToeWinner (board g') = Some (w, l) \<longrightarrow>
               winner g' = Some w \<and> winLine g' = l \<and> currentPlayer g' = currentPlayer game)"
    by (rule exI [of _ ?g]) (intro conjI click b none some)
next
  assume "cellIndex pos game = Some k \<and> elemAt (board game) k = Some (Some m)"
  then have "tictactoeClick sid' pos game = (game, False, Returned)
         \<or> tictactoeClick sid' pos game = (game, False, Continues)
         \<or> tictactoeClick sid' pos game = (assignPlayers sid' game, False, Returned)
         \<or> tictactoeClick sid' pos game = (assignPlayers sid' game, False, Continues)"
    by (simp add: tictactoeClick_occupied)
  then show "\<exists>g' fl. tictactoeClick sid' pos game = (g', False, fl)
         \<and> board g' = board game \<and> currentPlayer g' = currentPlayer game
         \<and> winner g' = winner game \<and> winLine g' = winLine game"
    by (elim disjE) (simp_all add: assignPlayers_keeps)
qed

theorem tictactoe_move_witness:
  "inBounds (250, 250) exTicTacToe \<and> winner exTicTacToe = None
   \<and> \<not> notYourTurn ''A'' (assignPlayers ''A'' exTicTacToe)
   \<and> cellIndex (250, 250) exTicTacToe = Some 4 \<and> elemAt (board exTicTacToe) 4 = Some None
   \<and> (\<exists>g'. tictactoeClick ''A'' (250, 250) exTicTacToe = (g', True, Returned)
          \<and> board g' = [None, None, None, None, Some MarkX, None, None, None, None]
          \<and> currentPlayer g' = MarkO)
   \<and> cellIndex (250, 250) exPlayed = Some 4 \<and> elemAt (board exPlayed) 4 = Some (Some MarkX)
   \<and> (\<exists>g' fl. tictactoeClick ''A'' (250, 250) exPlayed = (g', False, fl)
          \<and> board g' = board exPlayed \<and> currentPlayer g' = currentPlayer exPlayed)"
proof -
  have 1: "inBounds (250, 250) exTicTacToe \<and> winner exTicTacToe = None
      \<and> \<not> notYourTurn ''A'' (assignPlayers ''A'' exTicTacToe)
      \<and> cellIndex (250, 250) exTicTacToe = Some 4 \<and> elemAt (board exTicTacToe) 4 = Some None"
    by (simp add: exTicTacToe_def inBounds_def notYourTurn_def assignPlayers_def truthy_def
          cellIndex_def elemAt_def Let_def)
  have 2: "cellIndex (250, 250) exPlayed = Some 4 \<and> elemAt (board exPlayed) 4 = Some (Some MarkX)"
    by (simp add: exPlayed_def exTicTacToe_def cellIndex_def elemAt_def Let_def)
  have 3: "checkTicTacToeWinner [None, None, None, None, Some MarkX, None, None, None, None] = None"
    by (simp add: checkTicTacToeWinner_def lines_def cell_def)
  have 4: "(board exTicTacToe)[4 := Some MarkX]
             = [None, None, None, None, Some MarkX, None, None, None, None]"
    by (simp add: exTicTacToe_def numeral_eq_Suc)
  have 5: "currentPlayer exTicTacToe = MarkX"
    by (simp add: exTicTacToe_def)
  note t1 = mp [OF conjunct1 [OF tictactoe_move [of "(250, 250)" exTicTacToe "''A''" 4 MarkX "''A''"]] 1]
  from t1 have a: "\<exists>g'. tictactoeClick ''A'' (250, 250) exTicTacToe = (g', True, Returned)
          \<and> board g' = [None, None, None, None, Some MarkX, None, None, None, None]
          \<and> currentPlayer g' = MarkO"
    by (elim exE conjE) (simp add: 3 4 5)
  note t2 = mp [OF conjunct2 [OF tictactoe_move [of "(250, 250)" exPlayed "''A''" 4 MarkX "''A''"]] 2]
  from t2 have b: "\<exists>g' fl. tictactoeClick ''A'' (250, 250) exPlayed = (g', False, fl)
          \<and> board g' = board exPlayed \<and> currentPlayer g' = currentPlayer exPlayed"
    by (elim exE conjE) simp
  from 1 2 a b show ?thesis by (intro conjI) (simp_all only: simp_thms)
qed

text \<open>
  C7 as stated fails: cell 4 is occupied and O is still unassigned; the click of
  connection B makes no move and emits nothing, yet B's copy of the game changes,
  B being recorded as \<open>playerO\<close>.
\<close>

theorem tictactoe_occupied_counterexample:
  "cellIndex (250, 250) exPlayed = Some 4 \<and> elemAt (board exPlayed) 4 = Some (Some MarkX)
   \<and> tictactoeClick ''B'' (250, 250) exPlayed = (exPlayed\<lparr>playerO := Some ''B''\<rparr>, False, Continues)
   \<and> exPlayed\<lparr>playerO := Some ''B''\<rparr> \<noteq> exPlayed
   \<and> paths (snd (handleGameClick (250, 250) (exClient ''B'' [Game (TicTacToe exPlayed)])))
       = [Game (TicTacToe (exPlayed\<lparr>playerO := Some ''B''\<rparr>))]
   \<and> outbox (snd (handleGameClick (250, 250) (exClient ''B'' [Game (TicTacToe exPlayed)]))) = []"
proof -
  have 1: "cellIndex (250, 250) exPlayed = Some 4 \<and> elemAt (board exPlayed) 4 = Some (Some MarkX)"
    by (simp add: exPlayed_def exTicTacToe_def cellIndex_def elemAt_def Let_def)
  have 2: "tictactoeClick ''B'' (250, 250) exPlayed
             = (exPlayed\<lparr>playerO := Some ''B''\<rparr>, False, Continues)"
    by (simp add: tictactoeClick_def exPlayed_def exTicTacToe_def inBounds_def assignPlayers_def
          notYourTurn_def truthy_def cellIndex_def elemAt_def Let_def)
  have 3: "exPlayed\<lparr>playerO := Some ''B''\<rparr> \<noteq> exPlayed"
    by (simp add: exPlayed_def exTicTacToe_def)
  have 4: "handleGameClick (250, 250) (exClient ''B'' [Game (TicTacToe exPlayed)])
             = (False, (exClient ''B'' [Game (TicTacToe exPlayed)])
                        \<lparr>paths := [Game (TicTacToe (exPlayed\<lparr>playerO := Some ''B''\<rparr>))]\<rparr>)"
    by (simp add: handleGameClick_def 2 exClient_def elemAt_def)
  have 5: "outbox (exClient ''B'' [Game (TicTacToe exPlayed)]) = []"
    by (simp add: exClient_def)
  from 1 2 3 4 5 show ?thesis by simp
qed

lemma pingPongTick_not_left:
  assumes "elemAt (paths c) (int i) = Some (Game (PingPong g))"
    and "playerLeft g \<noteq> Some (socket_id c)"
  shows "(\<exists>g'. elemAt (paths (pingPongTick i now rnd c)) (int i) = Some (Game (PingPong g'))
               \<and> ball g' = ball g)
         \<and> outbox (pingPongTick i now rnd c) = outbox c"
proof -
  from assms(1) have i: "i < length (paths c)" and g: "paths c ! i = Game (PingPong g)"
    by (auto simp add: elemAt_def split: if_splits)
  from assms(2) have ne: "Some (socket_id c) \<noteq> playerLeft g" by auto
  show ?thesis
    using assms(1) i g ne by (auto simp add: pingPongTick_def Let_def elemAt_def)
qed

lemma game_move_any_sender:
  "handle sid now (GameMove r k e) s = handle sid' now' (GameMove r k e) s"
  by (simp add: game_move_def)

lemma on_game_move_received_overwrites:
  assumes "elemAt (paths c) k \<noteq> None"
  shows "paths (on_game_move_received k e c) = (paths c)[nat k := e]"
  using assms by (auto simp add: on_game_move_received_def spread_def)

text \<open>
  C1 (as amended). The tick of a connection that is not \<open>playerLeft\<close> leaves the ball
  of the game as it is and emits nothing, so a physics step is taken only by
  \<open>playerLeft\<close>. Nothing else guards the ball: the server handles a \<open>game_move\<close> in
  the same way whoever sends it, storing and relaying the game when the index holds
  an element, and every client, whatever its role, replaces its copy at an index
  that holds an element by the game received.
\<close>

theorem pingpong_authority:
  "(elemAt (paths c) (int i) = Some (Game (PingPong g)) \<and> playerLeft g \<noteq> Some (socket_id c) \<longrightarrow>
      (\<exists>g'. elemAt (paths (pingPongTick i now rnd c)) (int i) = Some (Game (PingPong g'))
            \<and> ball g' = ball g)
      \<and> outbox (pingPongTick i now rnd c) = outbox c)
   \<and> handle sid t (GameMove r k e) s = handle sid' t' (GameMove r k e) s
   \<and> (roomStorage s r = Some rm \<and> elemAt (elements rm) k \<noteq> None \<longrightarrow>
        roomStorage (after (handle sid t (GameMove r k e) s)) r
          = Some (rm\<lparr>elements := (elements rm)[nat k := e]\<rparr>)
      \<and> sent (handle sid t (GameMove r k e) s) = [ToRoom r (GameMoveReceived k e)])
   \<and> (elemAt (paths c) k \<noteq> None \<longrightarrow> paths (on_game_move_received k e c) = (paths c)[nat k := e])"
proof -
  have 1: "elemAt (paths c) (int i) = Some (Game (PingPong g)) \<and> playerLeft g \<noteq> Some (socket_id c) \<longrightarrow>
      (\<exists>g'. elemAt (paths (pingPongTick i now rnd c)) (int i) = Some (Game (PingPong g'))
            \<and> ball g' = ball g)
      \<and> outbox (pingPongTick i now rnd c) = outbox c"
    using pingPongTick_not_left by blast
  have 2: "handle sid t (GameMove r k e) s = handle sid' t' (GameMove r k e) s"
    by (rule game_move_any_sender)
  have 3: "roomStorage s r = Some rm \<and> elemAt (elements rm) k \<noteq> None \<longrightarrow>
        roomStorage (after (handle sid t (GameMove r k e) s)) r
          = Some (rm\<lparr>elements := (elements rm)[nat k := e]\<rparr>)
      \<and> sent (handle sid t (GameMove r k e) s) = [ToRoom r (GameMoveReceived k e)]"
    by (auto simp add: game_move_def lookup_own)
  have 4: "elemAt (paths c) k \<noteq> None \<longrightarrow> paths (on_game_move_received k e c) = (paths c)[nat k := e]"
    using on_game_move_received_overwrites by blast
  from 1 2 3 4 show ?thesis by (intro conjI)
qed

theorem pingpong_authority_witness:
  "elemAt (paths exTicking) (int 0) = Some (Game (PingPong exPingPong))
   \<and> playerLeft exPingPong \<noteq> Some (socket_id exTicking)
   \<and> (\<exists>g'. elemAt (paths (pingPongTick 0 1016 exRnd exTicking)) (int 0) = Some (Game (PingPong g'))
           \<and> ball g' = ball exPingPong)
   \<and> outbox (pingPongTick 0 1016 exRnd exTicking) = []
   \<and> elemAt (paths (exClient ''A'' [Game (PingPong exPingPong)])) 0 \<noteq> None
   \<and> paths (on_game_move_received 0 (Game (PingPong exMoved)) (exClient ''A'' [Game (PingPong exPingPong)]))
       = [Game (PingPong exMoved)]"
proof -
  have 1: "elemAt (paths exTicking) (int 0) = Some (Game (PingPong exPingPong))
           \<and> playerLeft exPingPong \<noteq> Some (socket_id exTicking)"
    by (simp add: exTicking_def exClient_def exPingPong_def elemAt_def)
  have 2: "elemAt (paths (exClient ''A'' [Game (PingPong exPingPong)])) 0 \<noteq> None"
    by (simp add: exClient_def elemAt_def)
  have 3: "outbox exTicking = []"
    by (simp add: exTicking_def exClient_def)
  have 4: "(paths (exClient ''A'' [Game (PingPong exPingPong)]))[nat 0 := Game (PingPong exMoved)]
             = [Game (PingPong exMoved)]"
    by (simp add: exClient_def)
  note a = pingpong_authority [where c = exTicking and i = 0 and g = exPingPong
             and now = 1016 and rnd = exRnd]
  note b = pingpong_authority [where c = "exClient ''A'' [Game (PingPong exPingPong)]" and k = 0
             and e = "Game (PingPong exMoved)"]
  from mp [OF conjunct1 [OF a] 1] mp [OF conjunct2 [OF conjunct2 [OF conjunct2 [OF b]]] 2] 1 2 3 4
  show ?thesis by simp
qed

text \<open>
  C1 as stated fails: B is the right player and syncs a paddle drag with its own copy
  of the game, whose ball differs from A's; the server stores and relays it, and A,
  the left player, takes the ball over.
\<close>

theorem pingpong_authority_counterexample:
  "playerLeft exPingPong = Some ''A''
   \<and> outbox (elapse 50 (handlePointerMove_paddle (580, 100) exDragging))
       = [GameMove ''1'' 0 (Game (PingPong exMoved))]
   \<and> roomStorage (after (handle ''B'' 5 (GameMove ''1'' 0 (Game (PingPong exMoved))) exPongServer)) ''1''
       = Some \<lparr>elements = [Game (PingPong exMoved)], chat = [], background = ''dots''\<rparr>
   \<and> recipients exPongServer ''B'' (ToRoom ''1'' (GameMoveReceived 0 (Game (PingPong exMoved)))) = {''A''}
   \<and> paths (on_game_move_received 0 (Game (PingPong exMoved)) (exClient ''A'' [Game (PingPong exPingPong)]))
       = [Game (PingPong exMoved)]
   \<and> ball_x (ball exPingPong) = 300 \<and> ball_x (ball exMoved) = 123"
proof -
  have 1: "playerLeft exPingPong = Some ''A''"
    by (simp add: exPingPong_def)
  have 2: "paths (handlePointerMove_paddle (580, 100) exDragging) = [Game (PingPong exMoved)]"
    by (simp add: handlePointerMove_paddle_def exDragging_def exClient_def elemAt_def
          throttledPaddleSync_def setTimeout_def clampPaddle_def exMoved_def exStale_def
          exPingPong_def Let_def)
  have 3: "timers (handlePointerMove_paddle (580, 100) exDragging) = [(50, PaddleSyncFire)]
           \<and> draggedPaddleGame (handlePointerMove_paddle (580, 100) exDragging) = Some 0
           \<and> outbox (handlePointerMove_paddle (580, 100) exDragging) = []
           \<and> currentRoom (handlePointerMove_paddle (580, 100) exDragging) = ''1''"
    by (simp add: handlePointerMove_paddle_def exDragging_def exClient_def elemAt_def
          throttledPaddleSync_def setTimeout_def Let_def)
  have 4: "outbox (elapse 50 (handlePointerMove_paddle (580, 100) exDragging))
             = [GameMove ''1'' 0 (Game (PingPong exMoved))]"
    by (simp add: elapse_def fireAt_def 2 3 elemAt_def Let_def)
  have 5: "roomStorage (after (handle ''B'' 5 (GameMove ''1'' 0 (Game (PingPong exMoved))) exPongServer)) ''1''
             = Some \<lparr>elements = [Game (PingPong exMoved)], chat = [], background = ''dots''\<rparr>"
    by (simp add: game_move_def lookup_def exPongServer_def elemAt_def)
  have 6: "recipients exPongServer ''B'' (ToRoom ''1'' (GameMoveReceived 0 (Game (PingPong exMoved)))) = {''A''}"
    by (auto simp add: exPongServer_def)
  have 7: "paths (on_game_move_received 0 (Game (PingPong exMoved)) (exClient ''A'' [Game (PingPong exPingPong)]))
             = [Game (PingPong exMoved)]"
    by (simp add: on_game_move_received_def spread_def exClient_def elemAt_def)
  have 8: "ball_x (ball exPingPong) = 300 \<and> ball_x (ball exMoved) = 123"
    by (simp add: exMoved_def exStale_def exPingPong_def)
  from 1 4 5 6 7 8 show ?thesis by simp
qed

lemma fireAt_flag: "isLocalUpdate (fireAt dc c) = (snd dc \<noteq> ClearLocalUpdate \<and> isLocalUpdate c)"
  by (cases "snd dc") (simp_all add: fireAt_def split: option.splits)

lemma fold_fireAt_flag:
  "isLocalUpdate (fold fireAt ds c) = ((\<forall>dc \<in> set ds. snd dc \<noteq> ClearLocalUpdate) \<and> isLocalUpdate c)"
  by (induction ds arbitrary: c) (auto simp add: fireAt_flag)

lemma elapse_flag:
  "isLocalUpdate (elapse t c) =
     ((\<forall>dc \<in> set (timers c). fst dc \<le> t \<longrightarrow> snd dc \<noteq> ClearLocalUpdate) \<and> isLocalUpdate c)"
  by (auto simp add: elapse_def Let_def fold_fireAt_flag)

lemma imageSync_fields:
  assumes "(isDraggingImage c \<or> isResizingImage c) \<and> selectedImage c \<noteq> None \<and> moved > 5"
  shows "isLocalUpdate (handlePointerUp_imageSync moved c)"
    and "outbox (handlePointerUp_imageSync moved c) = outbox c @ [FullSync (currentRoom c) (paths c)]"
    and "timers (handlePointerUp_imageSync moved c) = timers c @ [(clock c + 500, ClearLocalUpdate)]"
  using assms by (simp_all add: handlePointerUp_imageSync_def setTimeout_def)

text \<open>
  C3 (as amended). The sync at the end of an image drag or resize in
  \<open>handlePointerUp\<close> raises \<open>isLocalUpdate\<close>, emits \<open>full_sync\<close> and sets a timer that
  lowers the flag 500 ms later: the flag is down once those 500 ms have passed, and
  it stays up until then when no earlier timer of the same kind is pending. While
  the flag is up an incoming \<open>canvas_data\<close> leaves the client as it is. The other two
  emitters of \<open>full_sync\<close>, \<open>throttledSync\<close> and \<open>syncToServer\<close>, do not touch the flag.
\<close>

theorem echo_suppression:
  "((isDraggingImage c \<or> isResizingImage c) \<and> selectedImage c \<noteq> None \<and> moved > 5 \<longrightarrow>
       isLocalUpdate (handlePointerUp_imageSync moved c)
     \<and> outbox (handlePointerUp_imageSync moved c) = outbox c @ [FullSync (currentRoom c) (paths c)]
     \<and> timers (handlePointerUp_imageSync moved c) = timers c @ [(clock c + 500, ClearLocalUpdate)]
     \<and> \<not> isLocalUpdate (elapse (clock c + 500) (handlePointerUp_imageSync moved c))
     \<and> ((\<forall>dc \<in> set (timers c). snd dc \<noteq> ClearLocalUpdate) \<and> t < clock c + 500 \<longrightarrow>
          isLocalUpdate (elapse t (handlePointerUp_imageSync moved c))))
   \<and> (isLocalUpdate c \<longrightarrow> on_canvas_data data c = c)
   \<and> isLocalUpdate (throttledSync c) = isLocalUpdate c
   \<and> isLocalUpdate (syncToServer c) = isLocalUpdate c
   \<and> isLocalUpdate (fire ThrottledSyncFire c) = isLocalUpdate c"
proof -
  have 1: "(isDraggingImage c \<or> isResizingImage c) \<and> selectedImage c \<noteq> None \<and> moved > 5 \<longrightarrow>
       isLocalUpdate (handlePointerUp_imageSync moved c)
     \<and> outbox (handlePointerUp_imageSync moved c) = outbox c @ [FullSync (currentRoom c) (paths c)]
     \<and> timers (handlePointerUp_imageSync moved c) = timers c @ [(clock c + 500, ClearLocalUpdate)]
     \<and> \<not> isLocalUpdate (elapse (clock c + 500) (handlePointerUp_imageSync moved c))
     \<and> ((\<forall>dc \<in> set (timers c). snd dc \<noteq> ClearLocalUpdate) \<and> t < clock c + 500 \<longrightarrow>
          isLocalUpdate (elapse t (handlePointerUp_imageSync moved c)))"
  proof
    assume g: "(isDraggingImage c \<or> isResizingImage c) \<and> selectedImage c \<noteq> None \<and> moved > 5"
    note f = imageSync_fields [OF g]
    have lowered: "\<not> isLocalUpdate (elapse (clock c + 500) (handlePointerUp_imageSync moved c))"
      by (simp add: elapse_flag f)
    have kept: "(\<forall>dc \<in> set (timers c). snd dc \<noteq> ClearLocalUpdate) \<and> t < clock c + 500 \<longrightarrow>
          isLocalUpdate (elapse t (handlePointerUp_imageSync moved c))"
      by (auto simp add: elapse_flag f)
    from f lowered kept
    show "isLocalUpdate (handlePointerUp_imageSync moved c)
     \<and> outbox (handlePointerUp_imageSync moved c) = outbox c @ [FullSync (currentRoom c) (paths c)]
     \<and> timers (handlePointerUp_imageSync moved c) = timers c @ [(clock c + 500, ClearLocalUpdate)]
     \<and> \<not> isLocalUpdate (elapse (clock c + 500) (handlePointerUp_imageSync moved c))
     \<and> ((\<forall>dc \<in> set (timers c). snd dc \<noteq> ClearLocalUpdate) \<and> t < clock c + 500 \<longrightarrow>
          isLocalUpdate (elapse t (handlePointerUp_imageSync moved c)))"
      by (intro conjI)
  qed
  have 2: "isLocalUpdate c \<longrightarrow> on_canvas_data data c = c"
    by (simp add: on_canvas_data_def)
  have 3: "isLocalUpdate (throttledSync c) = isLocalUpdate c"
    by (simp add: throttledSync_def setTimeout_def)
  have 4: "isLocalUpdate (syncToServer c) = isLocalUpdate c"
    by (simp add: syncToServer_def)
  have 5: "isLocalUpdate (fire ThrottledSyncFire c) = isLocalUpdate c"
    by simp
  from 1 2 3 4 5 show ?thesis by (intro conjI)
qed

theorem echo_suppression_witness:
  "(isDraggingImage exImageDrag \<or> isResizingImage exImageDrag)
   \<and> selectedImage exImageDrag \<noteq> None \<and> (10::real) > 5
   \<and> isLocalUpdate (handlePointerUp_imageSync 10 exImageDrag)
   \<and> outbox (handlePointerUp_imageSync 10 exImageDrag) = [FullSync ''1'' [Image ''/uploads/a.png'']]
   \<and> isLocalUpdate (elapse 499 (handlePointerUp_imageSync 10 exImageDrag))
   \<and> \<not> isLocalUpdate (elapse 500 (handlePointerUp_imageSync 10 exImageDrag))
   \<and> on_canvas_data [] (handlePointerUp_imageSync 10 exImageDrag)
       = handlePointerUp_imageSync 10 exImageDrag"
proof -
  have 1: "(isDraggingImage exImageDrag \<or> isResizingImage exImageDrag)
           \<and> selectedImage exImageDrag \<noteq> None \<and> (10::real) > 5"
    by (simp add: exImageDrag_def exClient_def)
  have 2: "outbox exImageDrag = [] \<and> currentRoom exImageDrag = ''1''
           \<and> paths exImageDrag = [Image ''/uploads/a.png''] \<and> clock exImageDrag = 0
           \<and> timers exImageDrag = []"
    by (simp add: exImageDrag_def exClient_def)
  note a = mp [OF conjunct1 [OF echo_suppression [where c = exImageDrag and moved = 10 and t = 499]] 1]
  note b = conjunct1 [OF conjunct2 [OF echo_suppression
             [where c = "handlePointerUp_imageSync 10 exImageDrag" and data = "[]"]]]
  from a b 1 2 show ?thesis by simp
qed

text \<open>
  C3 as stated fails: \<open>throttledSync\<close> and \<open>syncToServer\<close> emit \<open>full_sync\<close> with the flag
  down, and a \<open>canvas_data\<close> arriving right after replaces the mirror.
\<close>

theorem echo_suppression_counterexample:
  "\<not> isLocalUpdate (throttledSync exIdle)
   \<and> outbox (elapse 100 (throttledSync exIdle)) = [FullSync ''1'' [exLine]]
   \<and> \<not> isLocalUpdate (elapse 100 (throttledSync exIdle))
   \<and> paths (on_canvas_data [] (elapse 100 (throttledSync exIdle))) = []
   \<and> outbox (syncToServer exIdle) = [FullSync ''1'' [exLine]]
   \<and> \<not> isLocalUpdate (syncToServer exIdle)"
proof -
  have 1: "elapse 100 (throttledSync exIdle)
             = exIdle\<lparr>outbox := [FullSync ''1'' [exLine]], clock := 100\<rparr>"
    by (simp add: elapse_def fireAt_def throttledSync_def setTimeout_def exIdle_def exClient_def
          cleanPathsForSync_def Let_def)
  have 2: "\<not> isLocalUpdate (throttledSync exIdle) \<and> \<not> isLocalUpdate (syncToServer exIdle)
           \<and> outbox (syncToServer exIdle) = [FullSync ''1'' [exLine]]"
    by (simp add: throttledSync_def setTimeout_def syncToServer_def exIdle_def exClient_def
          cleanPathsForSync_def)
  have 3: "paths (on_canvas_data [] (exIdle\<lparr>outbox := [FullSync ''1'' [exLine]], clock := 100\<rparr>)) = []"
    by (simp add: on_canvas_data_def exIdle_def exClient_def Let_def)
  have 4: "\<not> isLocalUpdate (exIdle\<lparr>outbox := [FullSync ''1'' [exLine]], clock := 100\<rparr>)"
    by (simp add: exIdle_def exClient_def)
  from 1 2 3 4 show ?thesis by simp
qed

end
